theory Spec2Isabelle
  imports Main "HOL-Library.Word" "HOL-Library.Char_ord" "HOL-Library.List_Lexorder"
    "HOL-Library.Multiset"
begin

unbundle bit_operations_syntax

text \<open>
  A model of the cash-on-delivery relay, a Shopify app on Express: the signature verifier
  \<open>verifyProxyHmac\<close> and the handler of \<open>POST /proxy/cod\<close> in the variant that calls it
  (src/unnamed/part_001), the handler of \<open>POST /proxy/cod\<close> of src/server.js, which calls
  no verifier, and the two SQL statements on the table \<open>shop_sessions\<close> that all variants
  share. A handler is a function from what it runs against (the store, the downstream
  API, the runtime) and the request to its response and the list of its effects.
\<close>

section \<open>Strings and bytes\<close>

text \<open>
  A JavaScript string is a sequence of code units. It is modelled as a \<open>string\<close>, one
  \<open>char\<close> per code unit (code units below 256). The order on strings is the
  lexicographic order on code units, which is what \<open>Array.prototype.sort()\<close> without a
  comparator uses: ordinal, case-sensitive, a proper prefix first.

  \<open>Buffer.from(s, "utf-8")\<close>, \<open>Buffer.from(s)\<close> and \<open>hmac.update(s)\<close> encode a
  string as UTF-8: one byte for a code unit below 128, two bytes above.
\<close>

type_synonym byte = "8 word"
type_synonym u32 = "32 word"

definition utf8_char :: "char \<Rightarrow> byte list" where
  "utf8_char c =
     (let n = (of_char c :: nat)
      in if n < 128 then [of_nat n] else [of_nat (192 + n div 64), of_nat (128 + n mod 64)])"

definition utf8 :: "string \<Rightarrow> byte list" where
  "utf8 s = concat (map utf8_char s)"

section \<open>Node's crypto.createHmac("sha256", key).update(msg).digest("hex")\<close>

text \<open>
  The keyed hash the verifier calls is the runtime's HMAC (RFC 2104) over SHA-256
  (FIPS 180-4), rendered by \<open>digest("hex")\<close> as lowercase hexadecimal. Key and message
  are strings and are hashed in their UTF-8 encoding. Of the hash itself the proofs below
  use only that the digest has 64 characters, all of them lowercase hexadecimal digits.
\<close>

definition rotr :: "nat \<Rightarrow> u32 \<Rightarrow> u32" where
  "rotr n x = (drop_bit n x) OR (push_bit (32 - n) x)"

definition K256 :: "u32 list" where
  "K256 = [
   0x428A2F98, 0x71374491, 0xB5C0FBCF, 0xE9B5DBA5, 0x3956C25B, 0x59F111F1, 0x923F82A4, 0xAB1C5ED5,
   0xD807AA98, 0x12835B01, 0x243185BE, 0x550C7DC3, 0x72BE5D74, 0x80DEB1FE, 0x9BDC06A7, 0xC19BF174,
   0xE49B69C1, 0xEFBE4786, 0x0FC19DC6, 0x240CA1CC, 0x2DE92C6F, 0x4A7484AA, 0x5CB0A9DC, 0x76F988DA,
   0x983E5152, 0xA831C66D, 0xB00327C8, 0xBF597FC7, 0xC6E00BF3, 0xD5A79147, 0x06CA6351, 0x14292967,
   0x27B70A85, 0x2E1B2138, 0x4D2C6DFC, 0x53380D13, 0x650A7354, 0x766A0ABB, 0x81C2C92E, 0x92722C85,
   0xA2BFE8A1, 0xA81A664B, 0xC24B8B70, 0xC76C51A3, 0xD192E819, 0xD6990624, 0xF40E3585, 0x106AA070,
   0x19A4C116, 0x1E376C08, 0x2748774C, 0x34B0BCB5, 0x391C0CB3, 0x4ED8AA4A, 0x5B9CCA4F, 0x682E6FF3,
   0x748F82EE, 0x78A5636F, 0x84C87814, 0x8CC70208, 0x90BEFFFA, 0xA4506CEB, 0xBEF9A3F7, 0xC67178F2]"

definition IV256 :: "u32 list" where
  "IV256 = [0x6A09E667, 0xBB67AE85, 0x3C6EF372, 0xA54FF53A,
            0x510E527F, 0x9B05688C, 0x1F83D9AB, 0x5BE0CD19]"

definition be32 :: "byte list \<Rightarrow> u32" where
  "be32 bs = foldl (\<lambda>acc b. push_bit 8 acc OR ucast b) 0 bs"

fun chunks :: "nat \<Rightarrow> 'a list \<Rightarrow> 'a list list" where
  "chunks n [] = []"
| "chunks n xs = (if n = 0 then [xs] else take n xs # chunks n (drop n xs))"

definition len_bytes :: "64 word \<Rightarrow> byte list" where
  "len_bytes w = map (\<lambda>i. ucast (drop_bit (8 * (7 - i)) w)) [0..<8]"

definition pad :: "byte list \<Rightarrow> byte list" where
  "pad m = (let l = length m; k = (119 - l mod 64) mod 64
            in m @ [0x80] @ replicate k 0 @ len_bytes (of_nat (8 * l)))"

fun schedule :: "nat \<Rightarrow> u32 list \<Rightarrow> u32 list" where
  "schedule 0 w = w"
| "schedule (Suc n) w =
     (let t = length w;
          w15 = w ! (t - 15);
          w2 = w ! (t - 2);
          s0 = rotr 7 w15 XOR rotr 18 w15 XOR drop_bit 3 w15;
          s1 = rotr 17 w2 XOR rotr 19 w2 XOR drop_bit 10 w2
      in schedule n (w @ [w ! (t - 16) + s0 + w ! (t - 7) + s1]))"

definition round256 :: "u32 list \<Rightarrow> (u32 \<times> u32) \<Rightarrow> u32 list" where
  "round256 st kw =
     (case st of
        [a, b, c, d, e, f, g, h] \<Rightarrow>
          (let S1 = rotr 6 e XOR rotr 11 e XOR rotr 25 e;
               ch = (e AND f) XOR (NOT e AND g);
               t1 = h + S1 + ch + fst kw + snd kw;
               S0 = rotr 2 a XOR rotr 13 a XOR rotr 22 a;
               mj = (a AND b) XOR (a AND c) XOR (b AND c);
               t2 = S0 + mj
           in [t1 + t2, a, b, c, d + t1, e, f, g])
      | _ \<Rightarrow> st)"

definition compress :: "u32 list \<Rightarrow> byte list \<Rightarrow> u32 list" where
  "compress h blk =
     (let w = schedule 48 (map be32 (chunks 4 blk));
          st = foldl round256 h (zip K256 w)
      in map2 (+) h st)"

definition word_bytes :: "u32 \<Rightarrow> byte list" where
  "word_bytes w = map (\<lambda>i. ucast (drop_bit (8 * (3 - i)) w)) [0..<4]"

definition sha256 :: "byte list \<Rightarrow> byte list" where
  "sha256 m = concat (map word_bytes (foldl compress IV256 (chunks 64 (pad m))))"

definition hmac_sha256 :: "byte list \<Rightarrow> byte list \<Rightarrow> byte list" where
  "hmac_sha256 key m =
     (let k0 = (if length key > 64 then sha256 key else key);
          k = k0 @ replicate (64 - length k0) 0
      in sha256 (map (\<lambda>b. b XOR 0x5c) k @ sha256 (map (\<lambda>b. b XOR 0x36) k @ m)))"

definition hexdigit :: "nat \<Rightarrow> char" where
  "hexdigit n = ''0123456789abcdef'' ! (n mod 16)"

definition hex_of_byte :: "byte \<Rightarrow> string" where
  "hex_of_byte b = [hexdigit (unat b div 16), hexdigit (unat b mod 16)]"

definition hexdigest :: "byte list \<Rightarrow> string" where
  "hexdigest bs = concat (map hex_of_byte bs)"

definition createHmac_sha256_hex :: "string \<Rightarrow> string \<Rightarrow> string" where
  "createHmac_sha256_hex secret msg = hexdigest (hmac_sha256 (utf8 secret) (utf8 msg))"

section \<open>The parsed query string\<close>

text \<open>
  \<open>req.query\<close> is an object from parameter names to values; a value is a string, or
  an array of strings when the parameter is repeated (the data model of the proxy
  request: "mapping of string to string or string-sequence"; the nested objects that a
  bracketed parameter name can produce are outside it). The object is an association
  list in insertion order; a JavaScript object holds a key once.
\<close>

datatype qvalue = QStr string | QArr "string list"

type_synonym query = "(string \<times> qvalue) list"

fun array_join :: "string \<Rightarrow> string list \<Rightarrow> string" where
  "array_join sep [] = []"
| "array_join sep [x] = x"
| "array_join sep (x # y # ys) = x @ sep @ array_join sep (y # ys)"

text \<open>The template placeholder \<open>${Array.isArray(v) ? v.join(",") : v}\<close>; a property
  that is not there reads as \<open>undefined\<close>.\<close>

definition render :: "qvalue option \<Rightarrow> string" where
  "render v = (case v of
                 None \<Rightarrow> ''undefined''
               | Some (QArr xs) \<Rightarrow> array_join '','' xs
               | Some (QStr s) \<Rightarrow> s)"

text \<open>\<open>const { hmac, ...rest } = query\<close>\<close>

definition rest_of :: "query \<Rightarrow> query" where
  "rest_of q = filter (\<lambda>kv. fst kv \<noteq> ''hmac'') q"

text \<open>\<open>Object.keys(rest).sort().map(k => `${k}=${...}`).join("&")\<close>. The order in which
  \<open>Object.keys\<close> lists the keys is lost in the sort that follows.\<close>

definition canonical_message :: "query \<Rightarrow> string" where
  "canonical_message q =
     (let rest = rest_of q
      in array_join ''&''
           (map (\<lambda>k. k @ ''='' @ render (map_of rest k)) (sort (map fst rest))))"

section \<open>The signature verifier\<close>

datatype js_error = TypeError | RangeError

text \<open>
  \<open>Buffer.from(v, "utf-8")\<close>: a string is encoded as UTF-8; \<open>undefined\<close> is a
  TypeError; an array gives one byte per element, each element converted by the
  runtime's ToNumber and ToUint8. That conversion parses floating-point literals and is
  a parameter of the model, \<open>toUint8\<close>.
\<close>

definition Buffer_from :: "(string \<Rightarrow> byte) \<Rightarrow> qvalue option \<Rightarrow> js_error + byte list" where
  "Buffer_from toUint8 v =
     (case v of
        None \<Rightarrow> Inl TypeError
      | Some (QStr s) \<Rightarrow> Inr (utf8 s)
      | Some (QArr xs) \<Rightarrow> Inr (map toUint8 xs))"

text \<open>\<open>crypto.timingSafeEqual(a, b)\<close> throws a RangeError when the byte lengths differ.\<close>

definition timingSafeEqual :: "byte list \<Rightarrow> byte list \<Rightarrow> js_error + bool" where
  "timingSafeEqual a b = (if length a \<noteq> length b then Inl RangeError else Inr (a = b))"

definition bind_js :: "js_error + 'a \<Rightarrow> ('a \<Rightarrow> js_error + 'b) \<Rightarrow> js_error + 'b" where
  "bind_js m f = (case m of Inl e \<Rightarrow> Inl e | Inr x \<Rightarrow> f x)"

text \<open>\<open>try { return e } catch { return false }\<close>\<close>

definition try_catch_false :: "js_error + bool \<Rightarrow> js_error + bool" where
  "try_catch_false m = (case m of Inl e \<Rightarrow> Inr False | Inr b \<Rightarrow> Inr b)"

text \<open>
  \<open>verifyProxyHmac(query, secret)\<close>. The secret is a string, the
  \<open>SHOPIFY_API_SECRET\<close> that the source requires to be set; what precedes the \<open>try\<close>
  block does not throw on a string secret and a query of the type above.
\<close>

definition verifyProxyHmac :: "(string \<Rightarrow> byte) \<Rightarrow> query \<Rightarrow> string \<Rightarrow> js_error + bool" where
  "verifyProxyHmac toUint8 q secret =
     (let hmac = map_of q ''hmac'';
          msg = canonical_message q;
          digest = createHmac_sha256_hex secret msg
      in try_catch_false
           (bind_js (Buffer_from toUint8 (Some (QStr digest))) (\<lambda>a.
            bind_js (Buffer_from toUint8 hmac) (\<lambda>b.
            timingSafeEqual a b))))"


section \<open>JSON values\<close>

text \<open>
  Request and response bodies are JSON. A number is modelled as an integer; a JavaScript
  value that may be \<open>undefined\<close> is a \<open>json option\<close>. An object keeps its members in
  order; \<open>JSON.stringify\<close> drops a member whose value is \<open>undefined\<close>.
\<close>

datatype json =
    JNull
  | JBool bool
  | JNum int
  | JStr string
  | JArr "json list"
  | JObj "(string \<times> json) list"

definition truthy :: "json option \<Rightarrow> bool" where
  "truthy v =
     (case v of
        None \<Rightarrow> False
      | Some JNull \<Rightarrow> False
      | Some (JBool b) \<Rightarrow> b
      | Some (JNum n) \<Rightarrow> n \<noteq> 0
      | Some (JStr s) \<Rightarrow> s \<noteq> []
      | Some (JArr xs) \<Rightarrow> True
      | Some (JObj kvs) \<Rightarrow> True)"

fun decimal :: "nat \<Rightarrow> string" where
  "decimal n = (if n < 10 then [char_of (48 + n)]
                else decimal (n div 10) @ [char_of (48 + n mod 10)])"

declare decimal.simps [simp del]

text \<open>
  \<open>v.k\<close>: reading a property of \<open>undefined\<close> or \<open>null\<close> is a TypeError. An object
  gives its member; an array and a string have \<open>length\<close> and their indices; a number
  and a boolean have no property of the names the handlers read (none of which is
  inherited from a prototype).
\<close>

definition get_prop :: "json option \<Rightarrow> string \<Rightarrow> js_error + json option" where
  "get_prop v k =
     (case v of
        None \<Rightarrow> Inl TypeError
      | Some JNull \<Rightarrow> Inl TypeError
      | Some (JObj kvs) \<Rightarrow> Inr (map_of kvs k)
      | Some (JArr xs) \<Rightarrow>
          Inr (if k = ''length'' then Some (JNum (int (length xs)))
               else map_option (\<lambda>i. xs ! i) (find (\<lambda>i. decimal i = k) [0..<length xs]))
      | Some (JStr s) \<Rightarrow>
          Inr (if k = ''length'' then Some (JNum (int (length s)))
               else map_option (\<lambda>i. JStr [s ! i]) (find (\<lambda>i. decimal i = k) [0..<length s]))
      | Some (JBool b) \<Rightarrow> Inr None
      | Some (JNum n) \<Rightarrow> Inr None)"

text \<open>\<open>v?.k\<close>\<close>

definition opt_prop :: "json option \<Rightarrow> string \<Rightarrow> js_error + json option" where
  "opt_prop v k = (if v = None \<or> v = Some JNull then Inr None else get_prop v k)"

text \<open>An object literal as \<open>JSON.stringify\<close> writes it.\<close>

definition stringify_members :: "(string \<times> json option) list \<Rightarrow> json" where
  "stringify_members kvs =
     JObj (concat (map (\<lambda>(k, v). case v of None \<Rightarrow> [] | Some j \<Rightarrow> [(k, j)]) kvs))"

section \<open>The credential store: table shop_sessions\<close>

text \<open>
  \<open>create table shop_sessions(shop text primary key, access_token text not null,
  scope text, created_at timestamptz default now())\<close>. A table is the list of its rows;
  the primary key keeps the \<open>shop\<close> column distinct. A statement parameter is a
  \<open>string option\<close>, \<open>None\<close> for SQL NULL.
\<close>

record shop_session =
  shop :: string
  access_token :: string
  scope :: "string option"
  created_at :: nat

type_synonym shop_sessions = "shop_session list"

datatype db_error = UniqueViolation | NotNullViolation | ConnectionError string

text \<open>\<open>insert into shop_sessions(shop, access_token, scope) values($1,$2,$3)\<close>, with
  \<open>created_at\<close> taking its default, the time \<open>now\<close> of the statement.\<close>

definition sql_insert ::
  "nat \<Rightarrow> string option \<Rightarrow> string option \<Rightarrow> string option \<Rightarrow> shop_sessions
    \<Rightarrow> db_error + shop_sessions" where
  "sql_insert now p1 p2 p3 tbl =
     (case (p1, p2) of
        (Some s, Some tok) \<Rightarrow>
          if s \<in> shop ` set tbl then Inl UniqueViolation
          else Inr (tbl @ [\<lparr>shop = s, access_token = tok, scope = p3, created_at = now\<rparr>])
      | _ \<Rightarrow> Inl NotNullViolation)"

text \<open>\<open>... on conflict(shop) do update set access_token=excluded.access_token,
  scope=excluded.scope\<close>: the upsert of the OAuth callback.\<close>

definition sql_upsert ::
  "nat \<Rightarrow> string option \<Rightarrow> string option \<Rightarrow> string option \<Rightarrow> shop_sessions
    \<Rightarrow> db_error + shop_sessions" where
  "sql_upsert now p1 p2 p3 tbl =
     (case sql_insert now p1 p2 p3 tbl of
        Inl UniqueViolation \<Rightarrow>
          (case p2 of
             Some tok \<Rightarrow>
               Inr (map (\<lambda>r. if Some (shop r) = p1
                              then r\<lparr>access_token := tok, scope := p3\<rparr> else r) tbl)
           | None \<Rightarrow> Inl NotNullViolation)
      | other \<Rightarrow> other)"

text \<open>\<open>select access_token from shop_sessions where shop=$1\<close>: the lookup of the relay.
  NULL equals no shop.\<close>

definition sql_select :: "string option \<Rightarrow> shop_sessions \<Rightarrow> string list" where
  "sql_select p1 tbl = map access_token (filter (\<lambda>r. Some (shop r) = p1) tbl)"

text \<open>The pool: absent when \<open>DATABASE_URL\<close> is not set, unreachable (a query rejects
  with the driver's message), or online with the table.\<close>

datatype database = NotConfigured | Unreachable string | Online shop_sessions

definition pool_query_select :: "database \<Rightarrow> string option \<Rightarrow> db_error + string list" where
  "pool_query_select db p1 =
     (case db of
        Online tbl \<Rightarrow> Inr (sql_select p1 tbl)
      | Unreachable m \<Rightarrow> Inl (ConnectionError m)
      | NotConfigured \<Rightarrow> Inl (ConnectionError []))"

definition pool_query_upsert ::
  "database \<Rightarrow> nat \<Rightarrow> string option \<Rightarrow> string option \<Rightarrow> string option
    \<Rightarrow> db_error + database" where
  "pool_query_upsert db now p1 p2 p3 =
     (case db of
        Online tbl \<Rightarrow>
          (case sql_upsert now p1 p2 p3 tbl of Inl e \<Rightarrow> Inl e | Inr tbl' \<Rightarrow> Inr (Online tbl'))
      | Unreachable m \<Rightarrow> Inl (ConnectionError m)
      | NotConfigured \<Rightarrow> Inl (ConnectionError []))"


section \<open>Requests, responses and the outside world\<close>

text \<open>
  The body of \<open>POST /proxy/cod\<close> as the data model types it: every member may be
  absent. \<open>req.body\<close> itself is \<open>undefined\<close> when no body was parsed.
\<close>

record line_item =
  variantId :: "string option"
  quantity :: "int option"

record customer_ref =
  email :: "string option"

record order_body =
  body_shop :: "string option"
  lineItems :: "line_item list option"
  customer :: "customer_ref option"
  shippingAddress :: "json option"
  order_note :: "string option"
  codFee :: "int option"

record request =
  req_query :: query
  req_body :: "order_body option"

record response =
  status :: nat
  body :: json

text \<open>
  What a \<open>fetch\<close> of the downstream API gives: a rejection (network failure) with its
  message, or a response with its status and its body, which \<open>.json()\<close> parses or
  rejects with a message.
\<close>

datatype fetch_result = NetworkError string | Response nat "string + json"

text \<open>
  The runtime and the collaborators a handler runs against: the byte conversion of
  \<open>Buffer.from\<close> on an array, the database driver's text for an array parameter, the
  message of the TypeError for a property read of \<open>undefined\<close>, and the downstream API
  (URL, access token header, JSON payload).
\<close>

record runtime =
  rt_toUint8 :: "string \<Rightarrow> byte"
  rt_arrayString :: "string list \<Rightarrow> string"
  rt_typeErrorMessage :: string
  rt_fetch :: "string \<Rightarrow> string \<Rightarrow> json \<Rightarrow> fetch_result"

text \<open>The effects of a handler, in the order they happen.\<close>

datatype event =
    CreateTable
  | StoreLookup "string option"
  | DownstreamCall string string json

text \<open>The driver's \<open>prepareValue\<close> of a query parameter: \<open>undefined\<close> is NULL.\<close>

definition prepareValue :: "runtime \<Rightarrow> qvalue option \<Rightarrow> string option" where
  "prepareValue rt v =
     (case v of
        None \<Rightarrow> None
      | Some (QStr s) \<Rightarrow> Some s
      | Some (QArr xs) \<Rightarrow> Some (rt_arrayString rt xs))"

text \<open>The placeholder \<open>${shop}\<close> of a template literal.\<close>

definition template_value :: "qvalue option \<Rightarrow> string" where
  "template_value v =
     (case v of
        None \<Rightarrow> ''undefined''
      | Some (QStr s) \<Rightarrow> s
      | Some (QArr xs) \<Rightarrow> array_join '','' xs)"

definition json_error :: "nat \<Rightarrow> string \<Rightarrow> response" where
  "json_error st msg = \<lparr>status = st, body = JObj [(''ok'', JBool False), (''error'', JStr msg)]\<rparr>"

section \<open>The signed relay (the variant with verifyProxyHmac)\<close>

text \<open>\<open>parseInt(li.quantity || "1", 10)\<close> on an integer quantity.\<close>

definition parseInt_quantity :: "int option \<Rightarrow> int" where
  "parseInt_quantity q = (case q of None \<Rightarrow> 1 | Some n \<Rightarrow> if n = 0 then 1 else n)"

definition line_item_input :: "line_item \<Rightarrow> json" where
  "line_item_input li =
     stringify_members
       [(''variantId'', map_option JStr (variantId li)),
        (''quantity'', Some (JNum (parseInt_quantity (quantity li))))]"

text \<open>The destructuring of \<open>req.body || {}\<close> with its defaults, and \<open>draftInput\<close>.\<close>

definition draftInput :: "order_body option \<Rightarrow> json" where
  "draftInput b =
     (let lineItems' = (case Option.bind b lineItems of None \<Rightarrow> [] | Some xs \<Rightarrow> xs);
          customer' = (case Option.bind b customer of None \<Rightarrow> \<lparr>email = None\<rparr> | Some c \<Rightarrow> c);
          shippingAddress' = (case Option.bind b shippingAddress of None \<Rightarrow> JObj [] | Some a \<Rightarrow> a);
          note' = (case Option.bind b order_note of None \<Rightarrow> ''COD order'' | Some n \<Rightarrow> n);
          codFee' = (case Option.bind b codFee of None \<Rightarrow> 0 | Some f \<Rightarrow> f);
          email_truthy = (case email customer' of None \<Rightarrow> False | Some e \<Rightarrow> e \<noteq> [])
      in stringify_members
           [(''note'', Some (JStr note')),
            (''tags'', Some (JArr [JStr ''COD'', JStr ''COD-App''])),
            (''email'', if email_truthy then map_option JStr (email customer') else Some JNull),
            (''shippingAddress'', Some shippingAddress'),
            (''billingAddress'', Some shippingAddress'),
            (''customer'',
               if email_truthy
               then Some (stringify_members [(''email'', map_option JStr (email customer'))])
               else None),
            (''lineItems'', Some (JArr (map line_item_input lineItems')))])"

definition gql :: string where
  "gql = ''#graphql'' @ [CHR 0x0A]
     @ ''      mutation draftOrderCreate($input: DraftOrderInput!) {'' @ [CHR 0x0A]
     @ ''        draftOrderCreate(input: $input) {'' @ [CHR 0x0A]
     @ ''          draftOrder { id invoiceUrl name }'' @ [CHR 0x0A]
     @ ''          userErrors { field message }'' @ [CHR 0x0A]
     @ ''        }'' @ [CHR 0x0A]
     @ ''      }''"

definition graphql_payload :: "order_body option \<Rightarrow> json" where
  "graphql_payload b =
     JObj [(''query'', JStr gql), (''variables'', JObj [(''input'', draftInput b)])]"

definition server_error :: response where
  "server_error = json_error 500 ''Server error''"

text \<open>The part of the handler after \<open>.then(r => r.json())\<close>.\<close>

definition relay_result :: "json \<Rightarrow> response" where
  "relay_result resp =
     (case get_prop (Some resp) ''errors'' of
        Inl e \<Rightarrow> server_error
      | Inr errors \<Rightarrow>
          if truthy errors
          then \<lparr>status = 400,
                body = stringify_members [(''ok'', Some (JBool False)), (''errors'', errors)]\<rparr>
          else
            (case bind_js (get_prop (Some resp) ''data'') (\<lambda>d.
                  bind_js (opt_prop d ''draftOrderCreate'') (\<lambda>c. opt_prop c ''userErrors'')) of
               Inl e \<Rightarrow> server_error
             | Inr ue \<Rightarrow>
                 (case (if truthy ue then get_prop ue ''length'' else Inr ue) of
                    Inl e \<Rightarrow> server_error
                  | Inr len \<Rightarrow>
                      if truthy len
                      then \<lparr>status = 400,
                            body = stringify_members [(''ok'', Some (JBool False)), (''errors'', ue)]\<rparr>
                      else
                        (case bind_js (get_prop (Some resp) ''data'') (\<lambda>d.
                              bind_js (get_prop d ''draftOrderCreate'') (\<lambda>c.
                              get_prop c ''draftOrder'')) of
                           Inl e \<Rightarrow> server_error
                         | Inr draft \<Rightarrow>
                             (case bind_js (get_prop draft ''id'') (\<lambda>i.
                                   bind_js (get_prop draft ''invoiceUrl'') (\<lambda>u. Inr (i, u))) of
                                Inl e \<Rightarrow> server_error
                              | Inr (i, u) \<Rightarrow>
                                  \<lparr>status = 200,
                                   body = stringify_members
                                     [(''ok'', Some (JBool True)),
                                      (''draftOrderId'', i),
                                      (''invoiceUrl'', u)]\<rparr>)))))"

definition proxy_cod_signed ::
  "runtime \<Rightarrow> string \<Rightarrow> database \<Rightarrow> request \<Rightarrow> response \<times> event list" where
  "proxy_cod_signed rt secret db req =
     (case verifyProxyHmac (rt_toUint8 rt) (req_query req) secret of
        Inl e \<Rightarrow> (server_error, [])
      | Inr verified \<Rightarrow>
          if \<not> verified then (json_error 403 ''Bad HMAC'', [])
          else
            (let shop' = map_of (req_query req) ''shop'';
                 p1 = prepareValue rt shop'
             in case pool_query_select db p1 of
                  Inl e \<Rightarrow> (server_error, [StoreLookup p1])
                | Inr [] \<Rightarrow> (json_error 401 ''Shop not installed'', [StoreLookup p1])
                | Inr (accessToken # rows) \<Rightarrow>
                    (let url = ''https://'' @ template_value shop' @ ''/admin/api/2025-07/graphql.json'';
                         payload = graphql_payload (req_body req);
                         events = [StoreLookup p1, DownstreamCall url accessToken payload]
                     in case rt_fetch rt url accessToken payload of
                          NetworkError m \<Rightarrow> (server_error, events)
                        | Response st (Inl m) \<Rightarrow> (server_error, events)
                        | Response st (Inr resp) \<Rightarrow> (relay_result resp, events))))"

section \<open>The relay of src/server.js\<close>

definition ensureTablesSafe :: "database \<Rightarrow> event list" where
  "ensureTablesSafe db = (case db of NotConfigured \<Rightarrow> [] | _ \<Rightarrow> [CreateTable])"

definition draft_order_payload :: json where
  "draft_order_payload =
     JObj [(''draft_order'',
            JObj [(''line_items'',
                   JArr [JObj [(''title'', JStr ''Cash on Delivery''),
                               (''quantity'', JNum 1),
                               (''price'', JStr ''0.00'')]]),
                  (''note'', JStr ''COD order''),
                  (''tags'', JArr [JStr ''COD'', JStr ''COD-App''])])]"

text \<open>\<open>(req.query.shop || req.body.shop || "").toString()\<close>; the body is read only
  when the query gives nothing truthy.\<close>

definition qvalue_truthy :: "qvalue option \<Rightarrow> bool" where
  "qvalue_truthy v = (case v of None \<Rightarrow> False | Some (QStr s) \<Rightarrow> s \<noteq> [] | Some (QArr xs) \<Rightarrow> True)"

definition shop_of_request :: "request \<Rightarrow> js_error + string" where
  "shop_of_request req =
     (let qshop = map_of (req_query req) ''shop''
      in if qvalue_truthy qshop then Inr (template_value qshop)
         else (case req_body req of
                 None \<Rightarrow> Inl TypeError
               | Some b \<Rightarrow> Inr (case body_shop b of None \<Rightarrow> [] | Some s \<Rightarrow> s)))"

text \<open>\<open>catch (e) { res.status(500).json({ ok: false, error: e.message || "Server error" }) }\<close>\<close>

definition caught :: "string \<Rightarrow> response" where
  "caught msg = json_error 500 (if msg = [] then ''Server error'' else msg)"

definition server_proxy_cod ::
  "runtime \<Rightarrow> database \<Rightarrow> request \<Rightarrow> response \<times> event list" where
  "server_proxy_cod rt db req =
     (let ev0 = ensureTablesSafe db
      in case shop_of_request req of
           Inl e \<Rightarrow> (caught (rt_typeErrorMessage rt), ev0)
         | Inr shop' \<Rightarrow>
             if shop' = [] then (json_error 400 ''Missing shop'', ev0)
             else if db = NotConfigured then (json_error 500 ''DB not configured'', ev0)
             else
               (case pool_query_select db (Some shop') of
                  Inl e \<Rightarrow>
                    (caught (case e of ConnectionError m \<Rightarrow> m | _ \<Rightarrow> []),
                     ev0 @ [StoreLookup (Some shop')])
                | Inr [] \<Rightarrow>
                    (json_error 401 ''Shop not installed'', ev0 @ [StoreLookup (Some shop')])
                | Inr (accessToken # rows) \<Rightarrow>
                    (let url = ''https://'' @ shop' @ ''/admin/api/2024-04/draft_orders.json'';
                         events = ev0 @ [StoreLookup (Some shop'),
                                         DownstreamCall url accessToken draft_order_payload]
                     in case rt_fetch rt url accessToken draft_order_payload of
                          NetworkError m \<Rightarrow> (caught m, events)
                        | Response st (Inl m) \<Rightarrow> (caught m, events)
                        | Response st (Inr data) \<Rightarrow>
                            if \<not> (200 \<le> st \<and> st \<le> 299)
                            then (\<lparr>status = st,
                                   body = JObj [(''ok'', JBool False), (''data'', data)]\<rparr>,
                                  events)
                            else (\<lparr>status = 200,
                                   body = JObj [(''ok'', JBool True), (''data'', data)]\<rparr>,
                                  events))))"


section \<open>The canonicalization algorithm in the words of the specification\<close>






section \<open>Sample collaborators\<close>

text \<open>
  Instances of the model's parameters for the closed examples below. \<open>toUint8_decimal\<close>
  is the runtime's conversion on a string of decimal digits that denotes an integer below
  \<open>2^53\<close> (where ToNumber is exact): the number modulo 256.
\<close>

definition parse_decimal :: "string \<Rightarrow> nat" where
  "parse_decimal s = foldl (\<lambda>a c. 10 * a + (of_char c - 48)) 0 s"

definition toUint8_decimal :: "string \<Rightarrow> byte" where
  "toUint8_decimal s = of_nat (parse_decimal s)"

definition graphql_success :: "string \<Rightarrow> string \<Rightarrow> string \<Rightarrow> json" where
  "graphql_success i u n =
     JObj [(''data'',
            JObj [(''draftOrderCreate'',
                   JObj [(''draftOrder'',
                          JObj [(''id'', JStr i), (''invoiceUrl'', JStr u), (''name'', JStr n)]),
                         (''userErrors'', JArr [])])])]"

definition sample_runtime :: runtime where
  "sample_runtime =
     \<lparr>rt_toUint8 = toUint8_decimal,
      rt_arrayString = (\<lambda>xs. ''{'' @ array_join '','' xs @ ''}''),
      rt_typeErrorMessage = ''Cannot read properties of undefined'',
      rt_fetch = (\<lambda>url token payload.
         Response 200 (Inr (graphql_success ''gid://order/1'' ''https://invoice.example/1'' ''#D1'')))\<rparr>"

definition sample_sessions :: shop_sessions where
  "sample_sessions =
     [\<lparr>shop = ''demo.example'', access_token = ''tok1'', scope = None, created_at = 7\<rparr>]"

definition sample_body :: order_body where
  "sample_body =
     \<lparr>body_shop = Some ''demo.example'',
      lineItems = Some [\<lparr>variantId = Some ''gid://variant/1'', quantity = None\<rparr>,
                        \<lparr>variantId = Some ''gid://variant/2'', quantity = Some 3\<rparr>],
      customer = Some \<lparr>email = Some ''a@b.example''\<rparr>,
      shippingAddress = Some (JObj [(''city'', JStr ''Lahore'')]),
      order_note = None,
      codFee = Some 50\<rparr>"

definition signed_request :: request where
  "signed_request =
     \<lparr>req_query = [(''shop'', QStr ''demo.example''),
                   (''hmac'', QStr (createHmac_sha256_hex ''secret'' ''shop=demo.example''))],
      req_body = Some sample_body\<rparr>"


section \<open>Changing the supplied signature\<close>

text \<open>The query with its \<open>hmac\<close> field set to another string.\<close>

definition replace_signature :: "string \<Rightarrow> query \<Rightarrow> query" where
  "replace_signature sig q = map (\<lambda>(k, v). if k = ''hmac'' then (k, QStr sig) else (k, v)) q"


section \<open>Facts about the encoding and the digest\<close>

lemma unat_byte_of_nat: "n < 256 \<Longrightarrow> unat (of_nat n :: byte) = n"
  by (simp add: unat_of_nat)

lemma utf8_char_unat:
  "map unat (utf8_char c) =
     (if of_char c < (128::nat) then [of_char c]
      else [192 + of_char c div 64, 128 + of_char c mod 64])"
proof -
  let ?n = "of_char c :: nat"
  have n: "?n < 256" by simp
  then have a: "192 + ?n div 64 < 256" and b: "128 + ?n mod 64 < 256" by arith+
  show ?thesis
    unfolding utf8_char_def Let_def
    using n by (simp only: list.map unat_byte_of_nat [OF a] unat_byte_of_nat [OF b]
        unat_byte_of_nat [OF n] if_distrib [of "map unat"] split: if_splits)
qed

lemma utf8_char_not_Nil: "utf8_char c \<noteq> []"
  by (simp add: utf8_char_def Let_def)

lemma of_char_div_mod_eq:
  assumes "(of_char c :: nat) div 64 = of_char d div 64"
    and "(of_char c :: nat) mod 64 = of_char d mod 64"
  shows "c = d"
proof -
  have "(of_char c :: nat) = of_char d"
    using assms by (metis div_mult_mod_eq)
  then show ?thesis by (metis char_of_char)
qed

lemma utf8_char_append_inj:
  assumes "utf8_char c @ xs = utf8_char d @ ys"
  shows "c = d \<and> xs = ys"
proof -
  from assms have "map unat (utf8_char c) @ map unat xs = map unat (utf8_char d) @ map unat ys"
    by (metis map_append)
  then show ?thesis
    unfolding utf8_char_unat
    by (auto split: if_splits dest: of_char_div_mod_eq)
qed

lemma utf8_inj: "utf8 a = utf8 b \<Longrightarrow> a = b"
proof (induction a arbitrary: b)
  case Nil
  then show ?case
    by (cases b) (auto simp: utf8_def utf8_char_not_Nil)
next
  case (Cons c cs)
  show ?case
  proof (cases b)
    case Nil
    with Cons.prems show ?thesis by (auto simp: utf8_def utf8_char_not_Nil)
  next
    case (Cons d ds)
    with Cons.prems have "utf8_char c @ utf8 cs = utf8_char d @ utf8 ds"
      by (simp add: utf8_def)
    then have "c = d \<and> utf8 cs = utf8 ds" by (rule utf8_char_append_inj)
    with Cons.IH Cons show ?thesis by simp
  qed
qed












lemma timingSafeEqual_catch:
  "try_catch_false (timingSafeEqual a b) = Inr (a = b)"
  by (auto simp: try_catch_false_def timingSafeEqual_def)

lemma verifyProxyHmac_char:
  "verifyProxyHmac toUint8 q secret =
     Inr (case map_of q ''hmac'' of
            None \<Rightarrow> False
          | Some (QStr sig) \<Rightarrow> sig = createHmac_sha256_hex secret (canonical_message q)
          | Some (QArr xs) \<Rightarrow>
              map toUint8 xs = utf8 (createHmac_sha256_hex secret (canonical_message q)))"
proof (cases "map_of q ''hmac''")
  case None
  then show ?thesis
    by (simp add: verifyProxyHmac_def Let_def try_catch_false_def bind_js_def Buffer_from_def)
next
  case (Some v)
  then show ?thesis
    by (cases v)
      (auto simp: verifyProxyHmac_def Let_def bind_js_def Buffer_from_def timingSafeEqual_catch
        dest: utf8_inj)
qed







lemma length_round256: "length (round256 st kw) = length st"
  by (simp add: round256_def Let_def split: list.splits)

lemma length_foldl_round256: "length (foldl round256 h xs) = length h"
  by (induction xs arbitrary: h) (simp_all add: length_round256)

lemma length_compress: "length (compress h blk) = length h"
  by (simp add: compress_def Let_def length_foldl_round256)

lemma length_foldl_compress: "length (foldl compress h bs) = length h"
  by (induction bs arbitrary: h) (simp_all add: length_compress)

lemma length_concat_word_bytes: "length (concat (map word_bytes ws)) = 4 * length ws"
  by (induction ws) (simp_all add: word_bytes_def)

lemma length_sha256: "length (sha256 m) = 32"
  by (simp add: sha256_def length_concat_word_bytes length_foldl_compress IV256_def)

lemma length_hexdigest: "length (hexdigest bs) = 2 * length bs"
  by (induction bs) (simp_all add: hexdigest_def hex_of_byte_def)

lemma length_createHmac_sha256_hex: "length (createHmac_sha256_hex secret msg) = 64"
  by (simp add: createHmac_sha256_hex_def length_hexdigest hmac_sha256_def Let_def length_sha256)

lemma hexdigit_lower: "hexdigit n \<in> set ''0123456789abcdef''"
  unfolding hexdigit_def by (rule nth_mem) simp

lemma hexdigit_ascii: "(of_char (hexdigit n) :: nat) < 128"
  using hexdigit_lower [of n] by auto

lemma utf8_ascii: "\<forall>c \<in> set s. (of_char c :: nat) < 128 \<Longrightarrow> length (utf8 s) = length s"
  by (induction s) (simp_all add: utf8_def utf8_char_def)

lemma unat_byte_div16: "unat (b :: byte) div 16 < 16"
  using unsigned_less [of b, where ?'a = nat] by simp

lemma hex_of_byte_ascii: "c \<in> set (hex_of_byte b) \<Longrightarrow> (of_char c :: nat) < 128"
  by (auto simp: hex_of_byte_def hexdigit_ascii)

lemma hexdigest_ascii: "\<forall>c \<in> set (hexdigest bs). (of_char c :: nat) < 128"
  by (auto simp: hexdigest_def dest: hex_of_byte_ascii)

lemma length_utf8_digest: "length (utf8 (createHmac_sha256_hex secret msg)) = 64"
  by (simp add: utf8_ascii createHmac_sha256_hex_def hexdigest_ascii
      length_createHmac_sha256_hex [unfolded createHmac_sha256_hex_def])



lemma rest_of_idem: "rest_of (rest_of q) = rest_of q"
  by (simp add: rest_of_def)

lemma canonical_message_rest: "canonical_message (rest_of q) = canonical_message q"
  by (simp add: canonical_message_def rest_of_idem)












lemma reorder_invariant:
  assumes d: "distinct (map fst q)" and m: "mset q' = mset q"
  shows "verifyProxyHmac toUint8 q' secret = verifyProxyHmac toUint8 q secret"
proof -
  have s: "set q' = set q" using m by (rule mset_eq_setD)
  have "mset (map fst q') = mset (map fst q)" using m by simp
  then have d': "distinct (map fst q')" using d mset_eq_imp_distinct_iff by blast
  have mo: "map_of q' = map_of q"
    using d d' s map_of_inject_set by blast
  have mr: "mset (rest_of q') = mset (rest_of q)"
    using m by (simp add: rest_of_def)
  have dr: "distinct (map fst (rest_of q))" "distinct (map fst (rest_of q'))"
    using d d' by (simp_all add: rest_of_def distinct_map_filter)
  have "set (rest_of q') = set (rest_of q)" using mr by (rule mset_eq_setD)
  then have "map_of (rest_of q') = map_of (rest_of q)"
    using dr map_of_inject_set by blast
  moreover have "sort (map fst (rest_of q')) = sort (map fst (rest_of q))"
    by (rule properties_for_sort) (simp_all add: mr)
  ultimately have cm: "canonical_message q' = canonical_message q"
    by (simp add: canonical_message_def Let_def)
  show ?thesis
    by (simp only: verifyProxyHmac_char mo cm)
qed

lemma rest_of_replace_signature: "rest_of (replace_signature sig q) = rest_of q"
  by (induction q) (auto simp: rest_of_def replace_signature_def split: if_splits)

lemma map_of_replace_signature:
  "map_of q ''hmac'' = Some v \<Longrightarrow> map_of (replace_signature sig q) ''hmac'' = Some (QStr sig)"
  by (induction q) (auto simp: replace_signature_def split: if_splits)

text \<open>
  Claim C5, as amended. From a query that verifies with a single string as signature,
  changing any one character of the signature makes verification false; reordering the
  parameters leaves it true.
\<close>
theorem mutated_signature_rejected_reordering_kept:
  assumes "verifyProxyHmac toUint8 q secret = Inr True"
    and "map_of q ''hmac'' = Some (QStr sig)"
    and "distinct (map fst q)"
  shows "(\<forall>i c. i < length sig \<and> c \<noteq> sig ! i \<longrightarrow>
            verifyProxyHmac toUint8 (replace_signature (sig[i := c]) q) secret = Inr False)
         \<and> (\<forall>q'. mset q' = mset q \<longrightarrow> verifyProxyHmac toUint8 q' secret = Inr True)"
proof (intro conjI allI impI)
  fix i c
  assume ic: "i < length sig \<and> c \<noteq> sig ! i"
  from assms(1,2) have "sig = createHmac_sha256_hex secret (canonical_message q)"
    by (simp add: verifyProxyHmac_char)
  moreover from ic have "sig[i := c] ! i \<noteq> sig ! i"
    by simp
  then have "sig[i := c] \<noteq> sig"
    by auto
  moreover have "canonical_message (replace_signature (sig[i := c]) q) = canonical_message q"
    by (simp add: canonical_message_def rest_of_replace_signature)
  ultimately show "verifyProxyHmac toUint8 (replace_signature (sig[i := c]) q) secret = Inr False"
    using map_of_replace_signature [OF assms(2)]
    by (simp add: verifyProxyHmac_char)
next
  fix q'
  assume "mset q' = mset q"
  with assms(3) have "verifyProxyHmac toUint8 q' secret = verifyProxyHmac toUint8 q secret"
    by (rule reorder_invariant)
  with assms(1) show "verifyProxyHmac toUint8 q' secret = Inr True" by simp
qed

lemma hex_of_byte_lower:
  assumes "c \<in> set (hex_of_byte b)"
  shows "c \<in> set ''0123456789abcdef''"
proof -
  from assms have "c = hexdigit (unat b div 16) \<or> c = hexdigit (unat b mod 16)"
    by (simp add: hex_of_byte_def)
  then show ?thesis using hexdigit_lower by blast
qed

lemma hexdigest_lower: "set (hexdigest bs) \<subseteq> set ''0123456789abcdef''"
  unfolding hexdigest_def using hex_of_byte_lower by (auto simp del: list.set)

text \<open>
  Claim C5 as stated fails in its second half: a query that verifies still verifies when
  its parameters are reordered.
\<close>
theorem reordering_keeps_verification_counterexample:
  "verifyProxyHmac toUint8_decimal
     [(''b'', QStr ''2''), (''a'', QStr ''1''),
      (''hmac'', QStr (createHmac_sha256_hex ''secret'' ''a=1&b=2''))] ''secret'' = Inr True
   \<and> verifyProxyHmac toUint8_decimal
     [(''a'', QStr ''1''), (''b'', QStr ''2''),
      (''hmac'', QStr (createHmac_sha256_hex ''secret'' ''a=1&b=2''))] ''secret'' = Inr True"
  by (simp add: verifyProxyHmac_char canonical_message_def rest_of_def render_def)

text \<open>The theorem at a signed query: its first character changed, and its fields reordered.\<close>
theorem mutated_signature_rejected_reordering_kept_witness:
  "verifyProxyHmac toUint8_decimal
     [(''b'', QStr ''2''), (''a'', QStr ''1''),
      (''hmac'', QStr (createHmac_sha256_hex ''secret'' ''a=1&b=2''))] ''secret'' = Inr True
   \<and> map_of [(''b'', QStr ''2''), (''a'', QStr ''1''),
        (''hmac'', QStr (createHmac_sha256_hex ''secret'' ''a=1&b=2''))] ''hmac''
       = Some (QStr (createHmac_sha256_hex ''secret'' ''a=1&b=2''))
   \<and> distinct (map fst [(''b'', QStr ''2''), (''a'', QStr ''1''),
        (''hmac'', QStr (createHmac_sha256_hex ''secret'' ''a=1&b=2''))])
   \<and> verifyProxyHmac toUint8_decimal
        [(''b'', QStr ''2''), (''a'', QStr ''1''),
         (''hmac'', QStr ((createHmac_sha256_hex ''secret'' ''a=1&b=2'')[0 := CHR ''g'']))]
        ''secret'' = Inr False
   \<and> verifyProxyHmac toUint8_decimal
        [(''hmac'', QStr (createHmac_sha256_hex ''secret'' ''a=1&b=2'')),
         (''a'', QStr ''1''), (''b'', QStr ''2'')] ''secret'' = Inr True"
proof -
  let ?sig = "createHmac_sha256_hex ''secret'' ''a=1&b=2''"
  let ?q = "[(''b'', QStr ''2''), (''a'', QStr ''1''), (''hmac'', QStr ?sig)]"
  have v: "verifyProxyHmac toUint8_decimal ?q ''secret'' = Inr True"
    by (simp add: verifyProxyHmac_char canonical_message_def rest_of_def render_def)
  have m: "map_of ?q ''hmac'' = Some (QStr ?sig)" by simp
  have d: "distinct (map fst ?q)" by simp
  have l: "0 < length ?sig" by (simp add: length_createHmac_sha256_hex)
  then have "?sig ! 0 \<in> set ?sig" by (rule nth_mem)
  then have "?sig ! 0 \<in> set ''0123456789abcdef''"
    using hexdigest_lower by (auto simp: createHmac_sha256_hex_def)
  then have g: "CHR ''g'' \<noteq> ?sig ! 0" by auto
  have p: "mset [(''hmac'', QStr ?sig), (''a'', QStr ''1''), (''b'', QStr ''2'')] = mset ?q"
    by simp
  from mutated_signature_rejected_reordering_kept [OF v m d] l g p
  have "verifyProxyHmac toUint8_decimal (replace_signature (?sig[0 := CHR ''g'']) ?q) ''secret''
          = Inr False"
    and "verifyProxyHmac toUint8_decimal
          [(''hmac'', QStr ?sig), (''a'', QStr ''1''), (''b'', QStr ''2'')] ''secret'' = Inr True"
    by blast+
  with v m d show ?thesis by (simp add: replace_signature_def)
qed

text \<open>
  Claim C6. For every query and secret the verifier returns a boolean and does not throw:
  the result is false when the signature field is absent, when the signature has another
  length than the digest, and whenever \<open>Buffer.from\<close> or \<open>timingSafeEqual\<close> throws.
\<close>
theorem verifyProxyHmac_never_throws:
  "(\<exists>b. verifyProxyHmac toUint8 q secret = Inr b)
   \<and> (map_of q ''hmac'' = None \<longrightarrow> verifyProxyHmac toUint8 q secret = Inr False)
   \<and> (\<forall>sig. map_of q ''hmac'' = Some (QStr sig) \<and> length (utf8 sig) \<noteq> 64 \<longrightarrow>
         verifyProxyHmac toUint8 q secret = Inr False)
   \<and> (\<forall>xs. map_of q ''hmac'' = Some (QArr xs) \<and> length xs \<noteq> 64 \<longrightarrow>
         verifyProxyHmac toUint8 q secret = Inr False)
   \<and> (\<forall>e. Buffer_from toUint8 (map_of q ''hmac'') = Inl e \<longrightarrow>
         verifyProxyHmac toUint8 q secret = Inr False)
   \<and> (\<forall>e b. Buffer_from toUint8 (map_of q ''hmac'') = Inr b
         \<and> timingSafeEqual (utf8 (createHmac_sha256_hex secret (canonical_message q))) b = Inl e \<longrightarrow>
         verifyProxyHmac toUint8 q secret = Inr False)"
proof -
  let ?d = "createHmac_sha256_hex secret (canonical_message q)"
  have l: "length (utf8 ?d) = 64" by (rule length_utf8_digest)
  have a: "map_of q ''hmac'' = Some (QStr sig) \<Longrightarrow> length (utf8 sig) \<noteq> 64 \<Longrightarrow> sig \<noteq> ?d" for sig
    using l by auto
  have b: "map_of q ''hmac'' = Some (QArr xs) \<Longrightarrow> length xs \<noteq> 64 \<Longrightarrow> map toUint8 xs \<noteq> utf8 ?d"
    for xs using l by (metis length_map)
  show ?thesis
    by (auto simp: verifyProxyHmac_char Buffer_from_def timingSafeEqual_def a b
        split: option.splits qvalue.splits if_splits)
qed

text \<open>The theorem at a query without signature and at one with a three-character signature.\<close>
theorem verifyProxyHmac_never_throws_witness:
  "map_of [(''shop'', QStr ''demo.example'')] ''hmac'' = None
   \<and> verifyProxyHmac toUint8_decimal [(''shop'', QStr ''demo.example'')] ''secret'' = Inr False
   \<and> map_of [(''hmac'', QStr ''abc'')] ''hmac'' = Some (QStr ''abc'')
   \<and> length (utf8 ''abc'') \<noteq> 64
   \<and> verifyProxyHmac toUint8_decimal [(''hmac'', QStr ''abc'')] ''secret'' = Inr False"
  using verifyProxyHmac_never_throws [of toUint8_decimal "[(''shop'', QStr ''demo.example'')]" "''secret''"]
    verifyProxyHmac_never_throws [of toUint8_decimal "[(''hmac'', QStr ''abc'')]" "''secret''"]
  by (simp add: utf8_def utf8_char_def)

section \<open>The relay and the store\<close>



lemma signed_request_verifies:
  "verifyProxyHmac toUint8 (req_query signed_request) ''secret'' = Inr True"
  by (simp add: signed_request_def verifyProxyHmac_char canonical_message_def rest_of_def render_def)




lemma select_absent:
  assumes "s \<notin> shop ` set tbl"
  shows "sql_select (Some s)
           (map (\<lambda>r. if shop r = s then r\<lparr>access_token := c, scope := sc\<rparr> else r) tbl)
         = []"
  using assms by (induction tbl) (auto simp: sql_select_def)

lemma select_after_update:
  assumes "distinct (map shop tbl)" and "s \<in> shop ` set tbl"
  shows "sql_select (Some s)
           (map (\<lambda>r. if shop r = s then r\<lparr>access_token := c, scope := sc\<rparr> else r) tbl)
         = [c]"
  using assms
proof (induction tbl)
  case Nil
  then show ?case by simp
next
  case (Cons r tbl)
  show ?case
  proof (cases "shop r = s")
    case True
    with Cons.prems have "s \<notin> shop ` set tbl" by auto
    from select_absent [OF this, where c = c and sc = sc] True show ?thesis
      by (simp add: sql_select_def)
  next
    case False
    with Cons have "sql_select (Some s)
        (map (\<lambda>r. if shop r = s then r\<lparr>access_token := c, scope := sc\<rparr> else r) tbl)
        = [c]"
      by auto
    with False show ?thesis by (simp add: sql_select_def)
  qed
qed

lemma select_after_append:
  assumes "s \<notin> shop ` set tbl"
  shows "sql_select (Some s) (tbl @ [\<lparr>shop = s, access_token = c, scope = sc, created_at = t\<rparr>]) = [c]"
  using assms by (induction tbl) (auto simp: sql_select_def)

lemma update_keeps_columns:
  "map shop (map (\<lambda>r. if shop r = s then r\<lparr>access_token := c, scope := sc\<rparr> else r) tbl)
     = map shop tbl"
  "map created_at (map (\<lambda>r. if shop r = s then r\<lparr>access_token := c, scope := sc\<rparr> else r) tbl)
     = map created_at tbl"
  by (induction tbl) auto

lemma sql_upsert_cases:
  "sql_upsert now (Some s) (Some c) sc tbl =
     Inr (if s \<in> shop ` set tbl
          then map (\<lambda>r. if shop r = s then r\<lparr>access_token := c, scope := sc\<rparr> else r) tbl
          else tbl @ [\<lparr>shop = s, access_token = c, scope = sc, created_at = now\<rparr>])"
  by (simp add: sql_upsert_def sql_insert_def)

lemma sql_upsert_then_select:
  assumes "distinct (map shop tbl)"
  shows "\<exists>t1 t2. sql_upsert now1 (Some s) (Some c1) sc1 tbl = Inr t1
           \<and> sql_select (Some s) t1 = [c1]
           \<and> sql_upsert now2 (Some s) (Some c2) sc2 t1 = Inr t2
           \<and> sql_select (Some s) t2 = [c2]
           \<and> map shop t2 = map shop t1
           \<and> map created_at t2 = map created_at t1"
proof -
  let ?upd = "\<lambda>c sc r. if shop r = s then r\<lparr>access_token := c, scope := sc\<rparr> else r"
  let ?t1 = "if s \<in> shop ` set tbl then map (?upd c1 sc1) tbl
             else tbl @ [\<lparr>shop = s, access_token = c1, scope = sc1, created_at = now1\<rparr>]"
  have u1: "sql_upsert now1 (Some s) (Some c1) sc1 tbl = Inr ?t1"
    by (rule sql_upsert_cases)
  have sh: "map shop ?t1 = (if s \<in> shop ` set tbl then map shop tbl else map shop tbl @ [s])"
    by (simp add: update_keeps_columns)
  then have d1: "distinct (map shop ?t1)"
    using assms by (auto simp: image_iff)
  have "s \<in> set (map shop ?t1)"
    unfolding sh by auto
  then have in1: "s \<in> shop ` set ?t1"
    by (simp only: set_map)
  have s1: "sql_select (Some s) ?t1 = [c1]"
    using assms by (simp add: select_after_update select_after_append)
  have u2: "sql_upsert now2 (Some s) (Some c2) sc2 ?t1 = Inr (map (?upd c2 sc2) ?t1)"
    using in1 by (simp only: sql_upsert_cases if_True)
  have s2: "sql_select (Some s) (map (?upd c2 sc2) ?t1) = [c2]"
    using d1 in1 by (rule select_after_update)
  have k: "map shop (map (?upd c2 sc2) ?t1) = map shop ?t1"
    "map created_at (map (?upd c2 sc2) ?t1) = map created_at ?t1"
    by (rule update_keeps_columns)+
  from u1 s1 u2 s2 k show ?thesis by blast
qed

text \<open>
  Claim C3. With the store online and its table satisfying the primary key, for every
  tenant: an upsert of \<open>c1\<close> followed by the lookup returns \<open>c1\<close>; a second upsert of \<open>c2\<close>
  raises no error (in particular no uniqueness violation) and the lookup then returns
  \<open>c2\<close>; the overwrite adds no row and leaves every \<open>created_at\<close> as it was.
\<close>
theorem upsert_then_lookup:
  assumes "distinct (map shop tbl)"
  shows "\<exists>t1 t2. pool_query_upsert (Online tbl) now1 (Some s) (Some c1) sc1 = Inr (Online t1)
           \<and> pool_query_select (Online t1) (Some s) = Inr [c1]
           \<and> pool_query_upsert (Online t1) now2 (Some s) (Some c2) sc2 = Inr (Online t2)
           \<and> pool_query_select (Online t2) (Some s) = Inr [c2]
           \<and> map shop t2 = map shop t1
           \<and> map created_at t2 = map created_at t1"
proof -
  from sql_upsert_then_select [OF assms, of now1 s c1 sc1 now2 c2 sc2]
  obtain t1 t2 where "sql_upsert now1 (Some s) (Some c1) sc1 tbl = Inr t1"
    and "sql_select (Some s) t1 = [c1]"
    and "sql_upsert now2 (Some s) (Some c2) sc2 t1 = Inr t2"
    and "sql_select (Some s) t2 = [c2]"
    and "map shop t2 = map shop t1"
    and "map created_at t2 = map created_at t1"
    by blast
  then show ?thesis
    by (intro exI [of _ t1] exI [of _ t2])
      (simp add: pool_query_upsert_def pool_query_select_def)
qed

text \<open>The theorem on a table with one other tenant.\<close>
theorem upsert_then_lookup_witness:
  "distinct (map shop sample_sessions)
   \<and> (\<exists>t1 t2. pool_query_upsert (Online sample_sessions) 8 (Some ''shop-a.example'')
                 (Some ''tok1'') None = Inr (Online t1)
           \<and> pool_query_select (Online t1) (Some ''shop-a.example'') = Inr [''tok1'']
           \<and> pool_query_upsert (Online t1) 9 (Some ''shop-a.example'') (Some ''tok2'') None
                = Inr (Online t2)
           \<and> pool_query_select (Online t2) (Some ''shop-a.example'') = Inr [''tok2'']
           \<and> map shop t2 = map shop t1
           \<and> map created_at t2 = map created_at t1)"
  using upsert_then_lookup [of sample_sessions 8 "''shop-a.example''" "''tok1''" None 9 "''tok2''" None]
  by (simp add: sample_sessions_def)

lemma select_unknown:
  "p \<notin> Some ` shop ` set tbl \<Longrightarrow> sql_select p tbl = []"
  by (induction tbl) (auto simp: sql_select_def)

text \<open>
  Claim C7. With the store online: a correctly signed request whose shop has no row is
  answered 401 with \<open>{ok:false, error:"Shop not installed"}\<close> and the only effect is the
  lookup, no downstream call; the relay of src/server.js answers the same for a shop
  without a row; and the lookup of an unknown tenant returns no row and does not throw.
\<close>
theorem unknown_shop_unauthorized:
  "(verifyProxyHmac (rt_toUint8 rt) (req_query req) secret = Inr True
      \<and> prepareValue rt (map_of (req_query req) ''shop'') \<notin> Some ` shop ` set tbl \<longrightarrow>
    proxy_cod_signed rt secret (Online tbl) req =
      (\<lparr>status = 401,
        body = JObj [(''ok'', JBool False), (''error'', JStr ''Shop not installed'')]\<rparr>,
       [StoreLookup (prepareValue rt (map_of (req_query req) ''shop''))]))
   \<and> (\<forall>s. shop_of_request req = Inr s \<and> s \<noteq> [] \<and> s \<notin> shop ` set tbl \<longrightarrow>
         server_proxy_cod rt (Online tbl) req =
           (\<lparr>status = 401,
             body = JObj [(''ok'', JBool False), (''error'', JStr ''Shop not installed'')]\<rparr>,
            [CreateTable, StoreLookup (Some s)]))
   \<and> (\<forall>p. p \<notin> Some ` shop ` set tbl \<longrightarrow> pool_query_select (Online tbl) p = Inr [])"
proof (intro conjI allI impI)
  assume a: "verifyProxyHmac (rt_toUint8 rt) (req_query req) secret = Inr True
      \<and> prepareValue rt (map_of (req_query req) ''shop'') \<notin> Some ` shop ` set tbl"
  then have "sql_select (prepareValue rt (map_of (req_query req) ''shop'')) tbl = []"
    by (intro select_unknown) simp
  with a show "proxy_cod_signed rt secret (Online tbl) req =
      (\<lparr>status = 401,
        body = JObj [(''ok'', JBool False), (''error'', JStr ''Shop not installed'')]\<rparr>,
       [StoreLookup (prepareValue rt (map_of (req_query req) ''shop''))])"
    by (simp add: proxy_cod_signed_def pool_query_select_def json_error_def Let_def)
next
  fix s
  assume a: "shop_of_request req = Inr s \<and> s \<noteq> [] \<and> s \<notin> shop ` set tbl"
  then have "sql_select (Some s) tbl = []"
    by (intro select_unknown) auto
  with a show "server_proxy_cod rt (Online tbl) req =
           (\<lparr>status = 401,
             body = JObj [(''ok'', JBool False), (''error'', JStr ''Shop not installed'')]\<rparr>,
            [CreateTable, StoreLookup (Some s)])"
    by (simp add: server_proxy_cod_def pool_query_select_def json_error_def Let_def
        ensureTablesSafe_def)
next
  fix p
  assume "p \<notin> Some ` shop ` set tbl"
  then show "pool_query_select (Online tbl) p = Inr []"
    by (simp add: pool_query_select_def select_unknown)
qed

text \<open>The theorem at the signed sample request against an empty table.\<close>
theorem unknown_shop_unauthorized_witness:
  "verifyProxyHmac (rt_toUint8 sample_runtime) (req_query signed_request) ''secret'' = Inr True
   \<and> prepareValue sample_runtime (map_of (req_query signed_request) ''shop'')
        \<notin> Some ` shop ` set ([] :: shop_sessions)
   \<and> proxy_cod_signed sample_runtime ''secret'' (Online []) signed_request =
       (\<lparr>status = 401,
         body = JObj [(''ok'', JBool False), (''error'', JStr ''Shop not installed'')]\<rparr>,
        [StoreLookup (Some ''demo.example'')])
   \<and> shop_of_request signed_request = Inr ''demo.example''
   \<and> server_proxy_cod sample_runtime (Online []) signed_request =
       (\<lparr>status = 401,
         body = JObj [(''ok'', JBool False), (''error'', JStr ''Shop not installed'')]\<rparr>,
        [CreateTable, StoreLookup (Some ''demo.example'')])
   \<and> pool_query_select (Online []) (Some ''unknown-shop.example'') = Inr []"
proof -
  have v: "verifyProxyHmac (rt_toUint8 sample_runtime) (req_query signed_request) ''secret'' = Inr True"
    by (rule signed_request_verifies)
  have s: "shop_of_request signed_request = Inr ''demo.example''"
    by (simp add: shop_of_request_def signed_request_def qvalue_truthy_def template_value_def)
  have p: "prepareValue sample_runtime (map_of (req_query signed_request) ''shop'')
      = Some ''demo.example''"
    by (simp add: prepareValue_def signed_request_def)
  from unknown_shop_unauthorized [of sample_runtime signed_request "''secret''" "[]"] v s p
  show ?thesis by simp
qed

section \<open>The success response\<close>





section \<open>The downstream payload and the unsigned relay\<close>







lemma shop_of_request_query:
  "map_of q ''shop'' = map_of q' ''shop'' \<Longrightarrow>
     shop_of_request (req\<lparr>req_query := q\<rparr>) = shop_of_request (req\<lparr>req_query := q'\<rparr>)"
  by (simp add: shop_of_request_def Let_def)

lemma select_present:
  assumes "distinct (map shop tbl)" and "r \<in> set tbl"
  shows "sql_select (Some (shop r)) tbl = [access_token r]"
  using assms
proof (induction tbl)
  case Nil
  then show ?case by simp
next
  case (Cons x tbl)
  show ?case
  proof (cases "x = r")
    case True
    with Cons.prems have "Some (shop r) \<notin> Some ` shop ` set tbl" by auto
    then have "sql_select (Some (shop r)) tbl = []" by (rule select_unknown)
    with True show ?thesis by (simp add: sql_select_def)
  next
    case False
    with Cons.prems have "r \<in> set tbl" and "shop x \<noteq> shop r" by auto
    with Cons show ?thesis by (simp add: sql_select_def)
  qed
qed

lemma map_of_filter_key:
  "P k \<Longrightarrow> map_of (filter (\<lambda>kv. P (fst kv)) q) k = map_of q k"
  by (induction q) auto

text \<open>
  Claim C10. In the relay of src/server.js, two requests that differ only in their
  signature parameters get the same response and cause the same effects; and when the
  query has no \<open>shop\<close>, the tenant is the \<open>shop\<close> member of the body, so that a request
  naming an installed shop there causes a downstream call with that shop's access token.
\<close>
theorem server_relay_ignores_signature:
  "(filter (\<lambda>kv. fst kv \<noteq> ''hmac'' \<and> fst kv \<noteq> ''signature'') q
      = filter (\<lambda>kv. fst kv \<noteq> ''hmac'' \<and> fst kv \<noteq> ''signature'') q' \<longrightarrow>
      server_proxy_cod rt db (req\<lparr>req_query := q\<rparr>) = server_proxy_cod rt db (req\<lparr>req_query := q'\<rparr>))
   \<and> (map_of (req_query req) ''shop'' = None \<and> req_body req = Some b \<and> body_shop b = Some s
        \<and> s \<noteq> [] \<and> distinct (map shop tbl) \<and> r \<in> set tbl \<and> shop r = s \<longrightarrow>
      snd (server_proxy_cod rt (Online tbl) req) =
        [CreateTable, StoreLookup (Some s),
         DownstreamCall (''https://'' @ s @ ''/admin/api/2024-04/draft_orders.json'')
           (access_token r) draft_order_payload])"
proof (intro conjI impI)
  assume "filter (\<lambda>kv. fst kv \<noteq> ''hmac'' \<and> fst kv \<noteq> ''signature'') q
      = filter (\<lambda>kv. fst kv \<noteq> ''hmac'' \<and> fst kv \<noteq> ''signature'') q'"
  then have "map_of (filter (\<lambda>kv. fst kv \<noteq> ''hmac'' \<and> fst kv \<noteq> ''signature'') q) ''shop''
      = map_of (filter (\<lambda>kv. fst kv \<noteq> ''hmac'' \<and> fst kv \<noteq> ''signature'') q') ''shop''"
    by simp
  then have "map_of q ''shop'' = map_of q' ''shop''"
    by (simp add: map_of_filter_key [where P = "\<lambda>k. k \<noteq> ''hmac'' \<and> k \<noteq> ''signature''"])
  then have "shop_of_request (req\<lparr>req_query := q\<rparr>) = shop_of_request (req\<lparr>req_query := q'\<rparr>)"
    by (rule shop_of_request_query)
  then show "server_proxy_cod rt db (req\<lparr>req_query := q\<rparr>)
      = server_proxy_cod rt db (req\<lparr>req_query := q'\<rparr>)"
    by (simp add: server_proxy_cod_def)
next
  assume a: "map_of (req_query req) ''shop'' = None \<and> req_body req = Some b \<and> body_shop b = Some s
        \<and> s \<noteq> [] \<and> distinct (map shop tbl) \<and> r \<in> set tbl \<and> shop r = s"
  then have "shop_of_request req = Inr s"
    by (simp add: shop_of_request_def qvalue_truthy_def)
  moreover from a have "sql_select (Some s) tbl = [access_token r]"
    using select_present by blast
  ultimately show "snd (server_proxy_cod rt (Online tbl) req) =
        [CreateTable, StoreLookup (Some s),
         DownstreamCall (''https://'' @ s @ ''/admin/api/2024-04/draft_orders.json'')
           (access_token r) draft_order_payload]"
    using a
    by (simp add: server_proxy_cod_def Let_def ensureTablesSafe_def pool_query_select_def
        split: fetch_result.splits sum.splits)
qed

text \<open>The theorem at a request with a forged signature, and at one with the shop in the body only.\<close>
theorem server_relay_ignores_signature_witness:
  "filter (\<lambda>kv. fst kv \<noteq> ''hmac'' \<and> fst kv \<noteq> ''signature'')
       [(''shop'', QStr ''demo.example''), (''hmac'', QStr ''forged'')]
     = filter (\<lambda>kv. fst kv \<noteq> ''hmac'' \<and> fst kv \<noteq> ''signature'')
       [(''shop'', QStr ''demo.example'')]
   \<and> server_proxy_cod sample_runtime (Online sample_sessions)
        \<lparr>req_query = [(''shop'', QStr ''demo.example''), (''hmac'', QStr ''forged'')],
         req_body = Some sample_body\<rparr>
     = server_proxy_cod sample_runtime (Online sample_sessions)
        \<lparr>req_query = [(''shop'', QStr ''demo.example'')], req_body = Some sample_body\<rparr>
   \<and> map_of ([] :: query) ''shop'' = None
   \<and> body_shop sample_body = Some ''demo.example''
   \<and> snd (server_proxy_cod sample_runtime (Online sample_sessions)
            \<lparr>req_query = [], req_body = Some sample_body\<rparr>) =
        [CreateTable, StoreLookup (Some ''demo.example''),
         DownstreamCall ''https://demo.example/admin/api/2024-04/draft_orders.json'' ''tok1''
           draft_order_payload]"
proof -
  let ?r = "\<lparr>shop = ''demo.example'', access_token = ''tok1'', scope = None, created_at = 7\<rparr>"
  have h: "filter (\<lambda>kv. fst kv \<noteq> ''hmac'' \<and> fst kv \<noteq> ''signature'')
       [(''shop'', QStr ''demo.example''), (''hmac'', QStr ''forged'')]
     = filter (\<lambda>kv. fst kv \<noteq> ''hmac'' \<and> fst kv \<noteq> ''signature'')
       [(''shop'', QStr ''demo.example'')]"
    by simp
  from server_relay_ignores_signature [where q = "[(''shop'', QStr ''demo.example''), (''hmac'', QStr ''forged'')]"
      and q' = "[(''shop'', QStr ''demo.example'')]" and rt = sample_runtime
      and db = "Online sample_sessions"
      and req = "\<lparr>req_query = [], req_body = Some sample_body\<rparr>"
      and b = sample_body and s = "''demo.example''" and tbl = sample_sessions and r = ?r]
  show ?thesis
    using h by (simp add: sample_sessions_def sample_body_def)
qed

end
